theory Spec2Isabelle
  imports Complex_Main
begin

section \<open>Schema fragments\<close>

text \<open>
  The converter works on \<^verbatim>\<open>base.Schema\<close> values of the document model. Only the fields
  that the rules of \<^verbatim>\<open>main.go\<close> read or write are modelled; every other field of the
  Go struct is left alone by every rule. A Go pointer that may be \<^verbatim>\<open>nil\<close> is an
  \<open>option\<close>; a slice is a list, the \<^verbatim>\<open>nil\<close> slice and the empty slice both being \<open>[]\<close>
  (the rules only take \<^verbatim>\<open>len\<close> of them, range over them and append to them).
  \<^verbatim>\<open>float64\<close> bounds are never computed with, only copied, and are modelled as reals.
\<close>

text \<open>
  \<^verbatim>\<open>base.DynamicValue[bool, float64]\<close>: the field \<open>N\<close> selects which of \<open>A\<close> and \<open>B\<close>
  is meant; \<^verbatim>\<open>IsA()\<close> is \<^verbatim>\<open>N == 0\<close> and \<^verbatim>\<open>IsB()\<close> is \<^verbatim>\<open>N == 1\<close>.
\<close>

record DynamicValue =
  N :: int
  A :: bool
  B :: real

definition IsA :: "DynamicValue \<Rightarrow> bool" where
  "IsA d = (N d = 0)"

definition IsB :: "DynamicValue \<Rightarrow> bool" where
  "IsB d = (N d = 1)"

text \<open>The two fields of the low-level schema (\<^verbatim>\<open>schema.GoLow()\<close>) that the rules touch.\<close>

record low_schema =
  ContentMediaType :: string
  ContentEncoding :: string

type_synonym yaml_node = string

record schema_fields =
  Type :: "string list"
  Nullable :: "bool option"
  Minimum :: "real option"
  Maximum :: "real option"
  ExclusiveMinimum :: "DynamicValue option"
  ExclusiveMaximum :: "DynamicValue option"
  Example :: "yaml_node option"
  Examples :: "yaml_node list"
  Format :: string
  Required :: "string list"
  ReadOnly :: "bool option"
  GoLow :: "low_schema option"

text \<open>
  The recursive part of a schema: \<^verbatim>\<open>Properties\<close> is an ordered map that may be \<^verbatim>\<open>nil\<close>,
  \<^verbatim>\<open>Items\<close> is a \<^verbatim>\<open>DynamicValue\<close> holding either a schema or a boolean, and the three
  composite lists hold schemas. A schema proxy is identified with the schema it builds.
\<close>

datatype schema =
  Schema (attrs: schema_fields)
         (Properties: "(string \<times> schema) list option")
         (Items: "items option")
         (AllOf: "schema list")
         (OneOf: "schema list")
         (AnyOf: "schema list")
and items = ItemsA schema | ItemsB bool

fun withFields :: "(schema_fields \<Rightarrow> schema_fields) \<Rightarrow> schema \<Rightarrow> schema" where
  "withFields f (Schema fs ps it al on an) = Schema (f fs) ps it al on an"

fun withOneOf :: "schema list \<Rightarrow> schema \<Rightarrow> schema" where
  "withOneOf on' (Schema fs ps it al on an) = Schema fs ps it al on' an"

text \<open>The fields of the zero value \<^verbatim>\<open>base.Schema{}\<close>.\<close>

definition zeroFields :: schema_fields where
  "zeroFields = \<lparr> Type = [], Nullable = None, Minimum = None, Maximum = None,
     ExclusiveMinimum = None, ExclusiveMaximum = None, Example = None, Examples = [],
     Format = '''', Required = [], ReadOnly = None, GoLow = None \<rparr>"

section \<open>Nullability rules\<close>

text \<open>\<^verbatim>\<open>convert30NullablesTo31TypeArrays\<close> (v1 to v2).\<close>

definition convert30NullablesTo31TypeArrays :: "schema \<Rightarrow> schema" where
  "convert30NullablesTo31TypeArrays schema =
     (case Nullable (attrs schema) of
        None \<Rightarrow> schema
      | Some b \<Rightarrow>
          withFields (\<lambda>f. f\<lparr> Type := (if b then Type f @ [''null''] else Type f),
                             Nullable := None \<rparr>) schema)"

text \<open>
  \<^verbatim>\<open>convert31TypeArraysTo30\<close> (v2 to v1). Its first loop scans the type array and keeps
  whether \<^verbatim>\<open>"null"\<close> was seen and the last entry that is not \<^verbatim>\<open>"null"\<close>.
\<close>

fun scanTypes :: "bool \<times> string \<Rightarrow> string list \<Rightarrow> bool \<times> string" where
  "scanTypes (nullable, nonNullType) [] = (nullable, nonNullType)"
| "scanTypes (nullable, nonNullType) (v # vs) =
     (if v = ''null'' then scanTypes (True, nonNullType) vs
      else scanTypes (nullable, v) vs)"

text \<open>The branch built for one entry: \<^verbatim>\<open>base.Schema{Type: []string{value}}\<close>, made nullable on demand.\<close>

definition newSchema :: "bool \<Rightarrow> string \<Rightarrow> schema" where
  "newSchema nullable v =
     Schema (zeroFields\<lparr> Type := [v], Nullable := (if nullable then Some nullable else None) \<rparr>)
            None None [] [] []"

fun oneOfBranches :: "bool \<Rightarrow> string list \<Rightarrow> schema list" where
  "oneOfBranches nullable [] = []"
| "oneOfBranches nullable (v # vs) =
     (if v \<noteq> ''null'' then newSchema nullable v # oneOfBranches nullable vs
      else oneOfBranches nullable vs)"

definition convert31TypeArraysTo30 :: "schema \<Rightarrow> schema" where
  "convert31TypeArraysTo30 schema =
     (let ts = Type (attrs schema);
          (nullable, nonNullType) = scanTypes (False, '''') ts
      in if nullable \<and> length ts = 2 then
           withFields (\<lambda>f. f\<lparr> Type := take 1 ((Type f)[0 := nonNullType]),
                              Nullable := Some nullable \<rparr>) schema
         else if length ts \<ge> 2 then
           withFields (\<lambda>f. f\<lparr> Type := [] \<rparr>) (withOneOf (oneOfBranches nullable ts) schema)
         else schema)"

section \<open>Numeric bound rules\<close>

text \<open>
  \<^verbatim>\<open>convert30MinMaxTo31\<close> applies one closure to the pair (minimum, exclusiveMinimum) and
  to the pair (maximum, exclusiveMaximum). The closure receives pointers to both fields
  and is modelled as a function from the pair of fields to the pair of fields.
\<close>

definition convert30ExclusiveBoundTo31 ::
    "real option \<times> DynamicValue option \<Rightarrow> real option \<times> DynamicValue option" where
  "convert30ExclusiveBoundTo31 p =
     (case p of (bound, exclusiveBound) \<Rightarrow>
        (case exclusiveBound of
           None \<Rightarrow> (bound, exclusiveBound)
         | Some d \<Rightarrow>
             if IsA d then
               if A d then
                 (None, Some (case bound of None \<Rightarrow> d | Some v \<Rightarrow> d\<lparr> N := 1, B := v \<rparr>))
               else (bound, None)
             else (bound, exclusiveBound)))"

definition convert30MinMaxTo31 :: "schema \<Rightarrow> schema" where
  "convert30MinMaxTo31 schema =
     withFields (\<lambda>f.
       (case convert30ExclusiveBoundTo31 (Minimum f, ExclusiveMinimum f) of (mn, emn) \<Rightarrow>
        case convert30ExclusiveBoundTo31 (Maximum f, ExclusiveMaximum f) of (mx, emx) \<Rightarrow>
          f\<lparr> Minimum := mn, ExclusiveMinimum := emn, Maximum := mx, ExclusiveMaximum := emx \<rparr>))
       schema"

text \<open>
  \<^verbatim>\<open>convert31MinMaxTo30\<close>. The Go code stores in the bound a pointer to the field \<open>B\<close> of
  the indicator; no rule writes to \<open>B\<close> afterwards other than with the value read through
  that pointer, so the bound is modelled as holding the value.
\<close>

definition convert31ExclusiveBoundTo30 ::
    "real option \<times> DynamicValue option \<Rightarrow> real option \<times> DynamicValue option" where
  "convert31ExclusiveBoundTo30 p =
     (case p of (bound, exclusiveBound) \<Rightarrow>
        (case exclusiveBound of
           None \<Rightarrow> (bound, exclusiveBound)
         | Some d \<Rightarrow>
             if IsB d then (Some (B d), Some (d\<lparr> A := True, N := 0 \<rparr>))
             else (bound, exclusiveBound)))"

definition convert31MinMaxTo30 :: "schema \<Rightarrow> schema" where
  "convert31MinMaxTo30 schema =
     withFields (\<lambda>f.
       (case convert31ExclusiveBoundTo30 (Minimum f, ExclusiveMinimum f) of (mn, emn) \<Rightarrow>
        case convert31ExclusiveBoundTo30 (Maximum f, ExclusiveMaximum f) of (mx, emx) \<Rightarrow>
          f\<lparr> Minimum := mn, ExclusiveMinimum := emn, Maximum := mx, ExclusiveMaximum := emx \<rparr>))
       schema"

text \<open>
  What a pair of fields means for a number \<open>x\<close>. A separate bound is exclusive when the
  indicator is the boolean \<open>True\<close> and inclusive otherwise; an indicator in numeric form
  is an exclusive bound of its own. \<open>below\<close> says on which side the admitted numbers lie:
  \<open>False\<close> for a minimum, \<open>True\<close> for a maximum.
\<close>

definition beyond :: "bool \<Rightarrow> bool \<Rightarrow> real \<Rightarrow> real \<Rightarrow> bool" where
  "beyond below strict m x =
     (if below then (if strict then x < m else x \<le> m)
      else (if strict then m < x else m \<le> x))"

definition admits :: "bool \<Rightarrow> real option \<times> DynamicValue option \<Rightarrow> real \<Rightarrow> bool" where
  "admits below p x =
     (case p of (bound, exclusiveBound) \<Rightarrow>
        (case bound of
           None \<Rightarrow> True
         | Some m \<Rightarrow>
             beyond below (case exclusiveBound of None \<Rightarrow> False | Some d \<Rightarrow> IsA d \<and> A d) m x) \<and>
        (case exclusiveBound of
           None \<Rightarrow> True
         | Some d \<Rightarrow> if IsB d then beyond below True (B d) x else True))"

text \<open>
  The bound a pair of fields carries when it carries one: its number, and whether
  it is exclusive. The numeric form of the indicator is read first.
\<close>

definition effectiveBound :: "real option \<times> DynamicValue option \<Rightarrow> (real \<times> bool) option" where
  "effectiveBound p =
     (case p of (bound, exclusiveBound) \<Rightarrow>
        (case exclusiveBound of
           None \<Rightarrow> map_option (\<lambda>m. (m, False)) bound
         | Some d \<Rightarrow>
             if IsB d then Some (B d, True)
             else map_option (\<lambda>m. (m, IsA d \<and> A d)) bound))"

definition minPair :: "schema \<Rightarrow> real option \<times> DynamicValue option" where
  "minPair s = (Minimum (attrs s), ExclusiveMinimum (attrs s))"

definition maxPair :: "schema \<Rightarrow> real option \<times> DynamicValue option" where
  "maxPair s = (Maximum (attrs s), ExclusiveMaximum (attrs s))"

text \<open>A pair of fields holds two bounds at once: a separate bound and a numeric indicator.\<close>

definition doubleBound :: "real option \<times> DynamicValue option \<Rightarrow> bool" where
  "doubleBound p =
     (case p of (bound, exclusiveBound) \<Rightarrow>
        bound \<noteq> None \<and> (case exclusiveBound of None \<Rightarrow> False | Some d \<Rightarrow> IsB d))"

section \<open>Example rules\<close>

definition convert30ExampleTo31Examples :: "schema \<Rightarrow> schema" where
  "convert30ExampleTo31Examples schema =
     withFields (\<lambda>f. case Example f of
                        None \<Rightarrow> f
                      | Some e \<Rightarrow> f\<lparr> Examples := [e], Example := None \<rparr>) schema"

definition convert31ExamplesTo30Example :: "schema \<Rightarrow> schema" where
  "convert31ExamplesTo30Example schema =
     withFields (\<lambda>f. case Examples f of
                        [] \<Rightarrow> f
                      | e # es \<Rightarrow> f\<lparr> Example := Some e, Examples := [] \<rparr>) schema"

section \<open>Binary string encoding rules\<close>

text \<open>
  \<^verbatim>\<open>convert30FormatsTo31ContentFields\<close>. The markers live in the low-level schema, which
  is absent (\<^verbatim>\<open>GoLow() == nil\<close>) for a schema that was not parsed from a document.
\<close>

definition convert30FormatsTo31ContentFields :: "schema \<Rightarrow> schema" where
  "convert30FormatsTo31ContentFields schema =
     withFields (\<lambda>f.
       if length (Type f) = 1 \<and> Type f ! 0 = ''string'' \<and> length (Format f) > 0 then
         (if Format f = ''binary'' \<or> Format f = ''byte'' then
            f\<lparr> GoLow := map_option (\<lambda>l. l\<lparr> ContentMediaType := ''base64'' \<rparr>) (GoLow f) \<rparr>
          else if Format f = ''base64'' then
            f\<lparr> GoLow := map_option (\<lambda>l. l\<lparr> ContentEncoding := ''base64'' \<rparr>) (GoLow f) \<rparr>
          else f)
         \<lparr> Format := '''' \<rparr>
       else f) schema"

definition convert31ContentFieldsTo30Formats :: "schema \<Rightarrow> schema" where
  "convert31ContentFieldsTo30Formats schema =
     withFields (\<lambda>f.
       if length (Type f) = 1 \<and> Type f ! 0 = ''string'' then
         (case GoLow f of
            None \<Rightarrow> f
          | Some l \<Rightarrow>
              (let (f1, l1) =
                     (if length (ContentMediaType l) > 0 then
                        ((if ContentMediaType l = ''application/octet-stream''
                          then f\<lparr> Format := ''binary'' \<rparr> else f),
                         l\<lparr> ContentMediaType := '''' \<rparr>)
                      else (f, l));
                   (f2, l2) =
                     (if length (ContentEncoding l1) > 0 then
                        ((if ContentEncoding l1 = ''base64''
                          then f1\<lparr> Format := ''base64'' \<rparr> else f1),
                         l1\<lparr> ContentEncoding := '''' \<rparr>)
                      else (f1, l1))
               in f2\<lparr> GoLow := Some l2 \<rparr>))
       else f) schema"

section \<open>Required and read-only properties\<close>

definition make30RequiredAndReadonlyPropertiesOnlyReadonly :: "schema \<Rightarrow> schema" where
  "make30RequiredAndReadonlyPropertiesOnlyReadonly schema =
     (case Properties schema of
        None \<Rightarrow> schema
      | Some props \<Rightarrow>
          if length (Required (attrs schema)) > 0 then
            withFields (\<lambda>f. f\<lparr> Required :=
              filter (\<lambda>propName.
                        \<not> (case map_of props propName of
                             None \<Rightarrow> False
                           | Some propSchema \<Rightarrow> ReadOnly (attrs propSchema) = Some True))
                     (Required f) \<rparr>) schema
          else schema)"

section \<open>The schema visitor\<close>

text \<open>
  \<^verbatim>\<open>updateSchemaAndReferencedSchema\<close>. The callback mutates the schema it is given; here
  it is a function from the schema to the mutated schema, and the visitor returns the
  schema with every mutation done. The callback is applied to each value of
  \<^verbatim>\<open>Properties\<close>, to the \<^verbatim>\<open>Items\<close> schema, to each member of \<^verbatim>\<open>AllOf\<close>, \<^verbatim>\<open>OneOf\<close>
  and \<^verbatim>\<open>AnyOf\<close>, and last to the schema itself; the visitor does not call itself.
\<close>

fun updateSchemaAndReferencedSchema ::
    "schema option \<Rightarrow> (schema \<Rightarrow> schema) \<Rightarrow> schema option" where
  "updateSchemaAndReferencedSchema None callback = None"
| "updateSchemaAndReferencedSchema (Some (Schema fs ps it al on an)) callback =
     Some (callback
       (Schema fs
          (map_option (map (\<lambda>(name, property). (name, callback property))) ps)
          (case it of
             None \<Rightarrow> None
           | Some (ItemsA a) \<Rightarrow> Some (ItemsA (callback a))
           | Some (ItemsB b) \<Rightarrow> Some (ItemsB b))
          (map callback al)
          (map callback on)
          (map callback an)))"

text \<open>The callbacks that \<^verbatim>\<open>convertOpenAPI30To31\<close> and \<^verbatim>\<open>convertOpenAPI31To30\<close> hand to the visitor.\<close>

definition callback30To31 :: "schema \<Rightarrow> schema" where
  "callback30To31 schema =
     convert30FormatsTo31ContentFields
       (convert30ExampleTo31Examples
          (convert30MinMaxTo31
             (convert30NullablesTo31TypeArrays schema)))"

definition callback31To30 :: "schema \<Rightarrow> schema" where
  "callback31To30 schema =
     convert31ContentFieldsTo30Formats
       (convert31ExamplesTo30Example
          (convert31MinMaxTo30
             (convert31TypeArraysTo30 schema)))"

section \<open>The Swagger document model\<close>

text \<open>
  The downgrade normalizer works on the \<^verbatim>\<open>openapi2\<close> document that the library conversion
  produced. Names that the schema model above already uses carry the suffix \<open>2\<close>.
  A Go \<^verbatim>\<open>map[string]*V\<close> is a map \<open>string \<rightharpoonup> V\<close>, the \<^verbatim>\<open>nil\<close> map being the empty
  map (the code makes a map before it writes to one that may be \<^verbatim>\<open>nil\<close>); the values
  of \<^verbatim>\<open>Paths\<close> are taken to be non-\<^verbatim>\<open>nil\<close>. The only \<^verbatim>\<open>openapi3.Schema\<close> the code builds
  is the zero value, so that type is \<open>unit\<close>.
\<close>

datatype schema_ref3 = SchemaRef3 (Ref3: string) (Value3: "unit option")

record additional_properties =
  Has :: "bool option"
  AdditionalSchema :: "schema_ref3 option"

datatype schema_ref2 = SchemaRef2 (Ref2: string) (Value2: "schema2 option")
and schema2 =
  Schema2 (Type2: "string list option")
          (Format2: string)
          (Description2: string)
          (Properties2: "string \<Rightarrow> schema_ref2 option")
          (Items2: "schema_ref2 option")
          (AdditionalProperties2: additional_properties)

record response =
  ResponseDescription :: string
  ResponseSchema :: "schema_ref2 option"

record operation =
  Summary :: string
  Description :: string
  OperationID :: string
  Tags :: "string list"
  Responses :: "string \<rightharpoonup> response"

record path_item =
  Delete :: "operation option"
  Get :: "operation option"
  Head :: "operation option"
  Options :: "operation option"
  Patch :: "operation option"
  Post :: "operation option"
  Put :: "operation option"

record swagger_doc =
  Definitions :: "string \<rightharpoonup> schema_ref2"
  Paths :: "string \<rightharpoonup> path_item"

section \<open>Summary and description\<close>

text \<open>Go strings are byte strings; the two labels are given by their UTF-8 bytes.\<close>

definition clientLabel :: string where
  "clientLabel =
     [CHR 0x67, CHR 0x52, CHR 0x50, CHR 0x43, CHR 0xE5, CHR 0xAE, CHR 0xA2, CHR 0xE6,
      CHR 0x88, CHR 0xB7, CHR 0xE7, CHR 0xAB, CHR 0xAF, CHR 0xE5, CHR 0x90, CHR 0x8D,
      CHR 0xE7, CHR 0xA7, CHR 0xB0, CHR 0xEF, CHR 0xBC, CHR 0x9A]"

definition methodLabel :: string where
  "methodLabel =
     [CHR 0xE6, CHR 0x8E, CHR 0xA5, CHR 0xE5, CHR 0x8F, CHR 0xA3, CHR 0xE6, CHR 0x96,
      CHR 0xB9, CHR 0xE6, CHR 0xB3, CHR 0x95, CHR 0xE5, CHR 0x90, CHR 0x8D, CHR 0xE7,
      CHR 0xA7, CHR 0xB0, CHR 0xEF, CHR 0xBC, CHR 0x9A]"

text \<open>\<^verbatim>\<open>strings.LastIndex\<close> for a one-byte separator: the last index of the byte, or \<open>-1\<close>.\<close>

fun LastIndex :: "string \<Rightarrow> char \<Rightarrow> int" where
  "LastIndex [] c = - 1"
| "LastIndex (x # xs) c =
     (let i = LastIndex xs c
      in if i \<ge> 0 then i + 1 else if x = c then 0 else - 1)"

fun Join :: "string list \<Rightarrow> string \<Rightarrow> string" where
  "Join [] sep = ''''"
| "Join [x] sep = x"
| "Join (x # y # ys) sep = x @ sep @ Join (y # ys) sep"

definition TrimPrefix :: "string \<Rightarrow> string \<Rightarrow> string" where
  "TrimPrefix s prefix =
     (if take (length prefix) s = prefix then drop (length prefix) s else s)"

text \<open>The three local values of \<^verbatim>\<open>copyDescriptionToSummary\<close>, computed before any field is written.\<close>

definition grpcClientName :: "operation \<Rightarrow> string" where
  "grpcClientName op = (if length (Tags op) > 0 then Tags op ! 0 else '''')"

definition methodName :: "operation \<Rightarrow> string" where
  "methodName op =
     (if OperationID op \<noteq> '''' then
        (let idx = LastIndex (OperationID op) (CHR ''_'')
         in if idx \<ge> 0 \<and> idx < int (length (OperationID op)) - 1
            then drop (nat (idx + 1)) (OperationID op)
            else OperationID op)
      else '''')"

definition grpcInfo :: "operation \<Rightarrow> string" where
  "grpcInfo op =
     (if grpcClientName op \<noteq> '''' \<or> methodName op \<noteq> '''' then
        (let parts = (if grpcClientName op \<noteq> '''' then [clientLabel @ grpcClientName op] else []) @
                     (if methodName op \<noteq> '''' then [methodLabel @ methodName op] else [])
         in if length parts > 0 then ''\<newline>\<newline>'' @ Join parts ''\<newline>'' else '''')
      else '''')"

definition copyDescriptionToSummary :: "operation option \<Rightarrow> operation option" where
  "copyDescriptionToSummary operation =
     (case operation of
        None \<Rightarrow> None
      | Some op \<Rightarrow>
          (let op1 = (if Summary op = '''' \<and> Description op \<noteq> ''''
                      then op\<lparr> Summary := Description op \<rparr> else op);
               op2 = (if grpcInfo op \<noteq> '''' then
                        (if Description op1 \<noteq> ''''
                         then op1\<lparr> Description := Description op1 @ grpcInfo op \<rparr>
                         else op1\<lparr> Description := TrimPrefix (grpcInfo op) ''\<newline>\<newline>'' \<rparr>)
                      else op1)
           in Some op2))"

section \<open>Tag deduplication\<close>

fun uniqueTags :: "(string \<Rightarrow> bool) \<Rightarrow> string list \<Rightarrow> string list" where
  "uniqueTags seen [] = []"
| "uniqueTags seen (tag # tags) =
     (if \<not> seen tag then tag # uniqueTags (seen(tag := True)) tags
      else uniqueTags seen tags)"

definition deduplicateTags :: "operation option \<Rightarrow> operation option" where
  "deduplicateTags operation =
     (case operation of
        None \<Rightarrow> None
      | Some op \<Rightarrow>
          if length (Tags op) = 0 then Some op
          else Some (op\<lparr> Tags := uniqueTags (\<lambda>_. False) (Tags op) \<rparr>))"

section \<open>Default error response\<close>

definition defaultErrorResponse :: response where
  "defaultErrorResponse =
     \<lparr> ResponseDescription = ''An unexpected error response.'',
       ResponseSchema = Some (SchemaRef2 ''#/definitions/rpcStatus'' None) \<rparr>"

definition addDefaultErrorResponseToOperation :: "operation option \<Rightarrow> operation option" where
  "addDefaultErrorResponseToOperation operation =
     (case operation of
        None \<Rightarrow> None
      | Some op \<Rightarrow>
          Some (op\<lparr> Responses := (Responses op)(''default'' \<mapsto> defaultErrorResponse) \<rparr>))"

definition noAdditionalProperties :: additional_properties where
  "noAdditionalProperties = \<lparr> Has = None, AdditionalSchema = None \<rparr>"

definition anyDescription :: string where
  \<open>anyDescription =
     ''`Any` contains an arbitrary serialized protocol buffer message along with a\<newline>'' @
     ''URL that describes the type of the serialized message.\<newline>'' @
     ''\<newline>'' @
     ''Protobuf library provides support to pack/unpack Any values in the form\<newline>'' @
     ''of utility functions or additional generated methods of the Any type.\<newline>'' @
     ''\<newline>'' @
     ''Example 1: Pack and unpack a message in C++.\<newline>'' @
     ''\<newline>'' @
     ''    Foo foo = ...;\<newline>'' @
     ''    Any any;\<newline>'' @
     ''    any.PackFrom(foo);\<newline>'' @
     ''    ...\<newline>'' @
     ''    if (any.UnpackTo(&foo)) {\<newline>'' @
     ''      ...\<newline>'' @
     ''    }\<newline>'' @
     ''\<newline>'' @
     ''Example 2: Pack and unpack a message in Java.\<newline>'' @
     ''\<newline>'' @
     ''    Foo foo = ...;\<newline>'' @
     ''    Any any = Any.pack(foo);\<newline>'' @
     ''    ...\<newline>'' @
     ''    if (any.is(Foo.class)) {\<newline>'' @
     ''      foo = any.unpack(Foo.class);\<newline>'' @
     ''    }\<newline>'' @
     ''\<newline>'' @
     ''Example 3: Pack and unpack a message in Python.\<newline>'' @
     ''\<newline>'' @
     ''    foo = Foo(...)\<newline>'' @
     ''    any = Any()\<newline>'' @
     ''    any.Pack(foo)\<newline>'' @
     ''    ...\<newline>'' @
     ''    if any.Is(Foo.DESCRIPTOR):\<newline>'' @
     ''      any.Unpack(foo)\<newline>'' @
     ''      ...\<newline>'' @
     ''\<newline>'' @
     ''Example 4: Pack and unpack a message in Go\<newline>'' @
     ''\<newline>'' @
     ''     foo := &pb.Foo{...}\<newline>'' @
     ''     any, err := anypb.New(foo)\<newline>'' @
     ''     if err != nil {\<newline>'' @
     ''       ...\<newline>'' @
     ''     }\<newline>'' @
     ''     ...\<newline>'' @
     ''     foo := &pb.Foo{}\<newline>'' @
     ''     if err := any.UnmarshalTo(foo); err != nil {\<newline>'' @
     ''       ...\<newline>'' @
     ''     }\<newline>'' @
     ''\<newline>'' @
     ''The pack methods provided by protobuf library will by default use\<newline>'' @
     ''\'type.googleapis.com/full.type.name\' as the type URL and the unpack\<newline>'' @
     ''methods only use the fully qualified type name after the last \'/\'\<newline>'' @
     ''in the type URL, for example "foo.bar.com/x/y.z" will yield type\<newline>'' @
     ''name "y.z".\<newline>'' @
     ''\<newline>'' @
     ''\<newline>'' @
     ''JSON\<newline>'' @
     ''\<newline>'' @
     ''The JSON representation of an `Any` value uses the regular\<newline>'' @
     ''representation of the deserialized, embedded message, with an\<newline>'' @
     ''additional field `@type` which contains the type URL. Example:\<newline>'' @
     ''\<newline>'' @
     ''    package google.profile;\<newline>'' @
     ''    message Person {\<newline>'' @
     ''      string first_name = 1;\<newline>'' @
     ''      string last_name = 2;\<newline>'' @
     ''    }\<newline>'' @
     ''\<newline>'' @
     ''    {\<newline>'' @
     ''      "@type": "type.googleapis.com/google.profile.Person",\<newline>'' @
     ''      "firstName": <string>,\<newline>'' @
     ''      "lastName": <string>\<newline>'' @
     ''    }\<newline>'' @
     ''\<newline>'' @
     ''If the embedded message type is well-known and has a custom JSON\<newline>'' @
     ''representation, that representation will be embedded adding a field\<newline>'' @
     ''`value` which holds the custom JSON in addition to the `@type`\<newline>'' @
     ''field. Example (for message [google.protobuf.Duration][]):\<newline>'' @
     ''\<newline>'' @
     ''    {\<newline>'' @
     ''      "@type": "type.googleapis.com/google.protobuf.Duration",\<newline>'' @
     ''      "value": "1.212s"\<newline>'' @
     ''    }''\<close>

definition anyTypeDescription :: string where
  \<open>anyTypeDescription =
     ''A URL/resource name that uniquely identifies the type of the serialized\<newline>'' @
     ''protocol buffer message. This string must contain at least\<newline>'' @
     ''one "/" character. The last segment of the URL\'s path must represent\<newline>'' @
     ''the fully qualified name of the type (as in\<newline>'' @
     ''`path/google.protobuf.Duration`). The name should be in a canonical form\<newline>'' @
     ''(e.g., leading "." is not accepted).\<newline>'' @
     ''\<newline>'' @
     ''In practice, teams usually precompile into the binary all types that they\<newline>'' @
     ''expect it to use in the context of Any. However, for URLs which use the\<newline>'' @
     ''scheme `http`, `https`, or no scheme, one can optionally set up a type\<newline>'' @
     ''server that maps type URLs to message definitions as follows:\<newline>'' @
     ''\<newline>'' @
     ''* If no scheme is provided, `https` is assumed.\<newline>'' @
     ''* An HTTP GET on the URL must yield a [google.protobuf.Type][]\<newline>'' @
     ''  value in binary format, or produce an error.\<newline>'' @
     ''* Applications are allowed to cache lookup results based on the\<newline>'' @
     ''  URL, or have them precompiled into a binary to avoid any\<newline>'' @
     ''  lookup. Therefore, binary compatibility needs to be preserved\<newline>'' @
     ''  on changes to types. (Use versioned type names to manage\<newline>'' @
     ''  breaking changes.)\<newline>'' @
     ''\<newline>'' @
     ''Note: this functionality is not currently available in the official\<newline>'' @
     ''protobuf release, and it is not used for type URLs beginning with\<newline>'' @
     ''type.googleapis.com.\<newline>'' @
     ''\<newline>'' @
     ''Schemes other than `http`, `https` (or the empty scheme) might be\<newline>'' @
     ''used with implementation specific semantics.''\<close>

definition googleprotobufAny :: schema_ref2 where
  "googleprotobufAny =
     SchemaRef2 '''' (Some (Schema2 (Some [''object'']) '''' anyDescription
       (Map.empty(''@type'' \<mapsto>
          SchemaRef2 '''' (Some (Schema2 (Some [''string'']) '''' anyTypeDescription
            Map.empty None noAdditionalProperties))))
       None
       \<lparr> Has = None, AdditionalSchema = Some (SchemaRef3 '''' (Some ())) \<rparr>))"

definition rpcStatus :: schema_ref2 where
  "rpcStatus =
     SchemaRef2 '''' (Some (Schema2 (Some [''object'']) '''' ''''
       (Map.empty(
          ''code'' \<mapsto>
            SchemaRef2 '''' (Some (Schema2 (Some [''integer'']) ''int32'' ''''
              Map.empty None noAdditionalProperties)),
          ''message'' \<mapsto>
            SchemaRef2 '''' (Some (Schema2 (Some [''string'']) '''' ''''
              Map.empty None noAdditionalProperties)),
          ''details'' \<mapsto>
            SchemaRef2 '''' (Some (Schema2 (Some [''array'']) '''' ''''
              Map.empty (Some (SchemaRef2 ''#/definitions/googleprotobufAny'' None))
              noAdditionalProperties))))
       None noAdditionalProperties))"

text \<open>One of the three runs over the seven operations of a path, in the order of the source.\<close>

definition forOperations ::
    "(operation option \<Rightarrow> operation option) \<Rightarrow> path_item \<Rightarrow> path_item" where
  "forOperations g path =
     path\<lparr> Delete := g (Delete path), Get := g (Get path), Head := g (Head path),
           Options := g (Options path), Patch := g (Patch path), Post := g (Post path),
           Put := g (Put path) \<rparr>"

definition normalizePath :: "path_item \<Rightarrow> path_item" where
  "normalizePath path =
     forOperations addDefaultErrorResponseToOperation
       (forOperations deduplicateTags
          (forOperations copyDescriptionToSummary path))"

text \<open>
  \<^verbatim>\<open>addDefaultErrorResponses\<close>. The loop body touches nothing but the path it is given,
  so the loop over the map of paths is the body applied to every value.
\<close>

definition addDefaultErrorResponses :: "swagger_doc \<Rightarrow> swagger_doc" where
  "addDefaultErrorResponses kinSwaggerDoc =
     (let defs0 = Definitions kinSwaggerDoc;
          defs1 = (case defs0 ''googleprotobufAny'' of
                     None \<Rightarrow> defs0(''googleprotobufAny'' \<mapsto> googleprotobufAny)
                   | Some _ \<Rightarrow> defs0);
          defs2 = (case defs1 ''rpcStatus'' of
                     None \<Rightarrow> defs1(''rpcStatus'' \<mapsto> rpcStatus)
                   | Some _ \<Rightarrow> defs1)
      in kinSwaggerDoc\<lparr> Definitions := defs2,
                         Paths := (\<lambda>name. map_option normalizePath (Paths kinSwaggerDoc name)) \<rparr>)"

text \<open>The seven operation fields of a path.\<close>

definition methods :: "(path_item \<Rightarrow> operation option) list" where
  "methods = [Delete, Get, Head, Options, Patch, Post, Put]"

section \<open>The conversion orchestrator\<close>

datatype SpecVersion = Swagger | OpenAPI30 | OpenAPI31

text \<open>
  \<^verbatim>\<open>SpecVersion\<close> is an \<^verbatim>\<open>int\<close> with three named constants, and \<^verbatim>\<open>parseArgs\<close> and the
  switch on the marker produce no other value. \<open>rank\<close> gives the value \<^verbatim>\<open>iota\<close> gave
  each constant; the loop compares them with \<^verbatim>\<open><\<close>.
\<close>

fun rank :: "SpecVersion \<Rightarrow> nat" where
  "rank Swagger = 0"
| "rank OpenAPI30 = 1"
| "rank OpenAPI31 = 2"

type_synonym bytes = string

record BasicDoc =
  OpenAPI :: string
  SwaggerMarker :: string

text \<open>
  A Go error is a message. The constructors name where \<^verbatim>\<open>convertDocument\<close> gets it from:
  its own two \<^verbatim>\<open>fmt.Errorf\<close> calls, or a conversion step.
\<close>

datatype error = CannotParse | UnsupportedVersion string | StepFailure string

fun message :: "error \<Rightarrow> string" where
  "message CannotParse = ''Cannot parse Swagger or OpenAPI document''"
| "message (UnsupportedVersion marker) = ''Unsuppoted input document OpenAPI version: '' @ marker"
| "message (StepFailure m) = m"

text \<open>
  What \<^verbatim>\<open>convertDocument\<close> calls and this development does not model: the YAML decoder
  that reads the two marker fields, and the four adjacent conversions, which parse,
  rewrite and render the document with the document model builder.
\<close>

record library =
  yamlUnmarshal :: "bytes \<Rightarrow> BasicDoc option"
  convertSwaggerToOpenAPI30 :: "bytes \<Rightarrow> error + bytes"
  convertOpenAPI30To31 :: "bytes \<Rightarrow> error + bytes"
  convertOpenAPI31To30 :: "bytes \<Rightarrow> error + bytes"
  convertOpenAPI30ToSwagger :: "bytes \<Rightarrow> error + bytes"

definition versionMarker :: "BasicDoc \<Rightarrow> string" where
  "versionMarker basicDoc =
     (if length (OpenAPI basicDoc) = 0 then SwaggerMarker basicDoc else OpenAPI basicDoc)"

definition recognizedMarkers :: "string list" where
  "recognizedMarkers =
     [''2.0'', ''3.0.0'', ''3.0.1'', ''3.0.2'', ''3.0.3'', ''3.0.4'', ''3.1.0'', ''3.1.1'']"

definition inputVersionOf :: "string \<Rightarrow> SpecVersion option" where
  "inputVersionOf marker =
     (if marker = ''2.0'' then Some Swagger
      else if marker \<in> set [''3.0.0'', ''3.0.1'', ''3.0.2'', ''3.0.3'', ''3.0.4''] then Some OpenAPI30
      else if marker \<in> set [''3.1.0'', ''3.1.1''] then Some OpenAPI31
      else None)"

text \<open>The body of the loop up to the error check: the step's result and the new current version.\<close>

definition loopBody ::
    "library \<Rightarrow> SpecVersion \<Rightarrow> SpecVersion \<Rightarrow> bytes \<Rightarrow> (error + bytes) \<times> SpecVersion" where
  "loopBody lib outputVersion inputVersion data =
     (if rank inputVersion < rank outputVersion then
        (if inputVersion = Swagger then (convertSwaggerToOpenAPI30 lib data, OpenAPI30)
         else (convertOpenAPI30To31 lib data, OpenAPI31))
      else
        (if inputVersion = OpenAPI31 then (convertOpenAPI31To30 lib data, OpenAPI30)
         else (convertOpenAPI30ToSwagger lib data, Swagger)))"

text \<open>
  The loop. Besides what the Go function returns, it returns the steps it has made,
  each as the pair of the version before and the version after.
\<close>

function convertLoop ::
    "library \<Rightarrow> SpecVersion \<Rightarrow> bytes \<Rightarrow> SpecVersion \<Rightarrow>
     (SpecVersion \<times> SpecVersion) list \<times> (error + bytes)" where
  "convertLoop lib outputVersion data inputVersion =
     (if inputVersion \<noteq> outputVersion then
        (case loopBody lib outputVersion inputVersion data of
           (Inl err, reached) \<Rightarrow> ([(inputVersion, reached)], Inl err)
         | (Inr data', reached) \<Rightarrow>
             (case convertLoop lib outputVersion data' reached of
                (steps, result) \<Rightarrow> ((inputVersion, reached) # steps, result)))
      else ([], Inr data))"
  by pat_completeness auto
termination
proof (relation "measure (\<lambda>(lib, outputVersion, data, inputVersion).
          (rank inputVersion - rank outputVersion) + (rank outputVersion - rank inputVersion))")
  show "wf (measure (\<lambda>(lib, outputVersion, data, inputVersion).
          (rank inputVersion - rank outputVersion) + (rank outputVersion - rank inputVersion)))"
    by simp
next
  fix lib :: library and outputVersion data inputVersion x reached data'
  assume "inputVersion \<noteq> outputVersion"
     and "(x, reached) = loopBody lib outputVersion inputVersion data"
  then show "((lib, outputVersion, data', reached), (lib, outputVersion, data, inputVersion))
        \<in> measure (\<lambda>(lib, outputVersion, data, inputVersion).
          (rank inputVersion - rank outputVersion) + (rank outputVersion - rank inputVersion))"
    by (cases inputVersion; cases outputVersion) (auto simp: loopBody_def)
qed

declare convertLoop.simps [simp del]

definition convertDocumentSteps ::
    "library \<Rightarrow> bytes \<Rightarrow> SpecVersion \<Rightarrow> (SpecVersion \<times> SpecVersion) list \<times> (error + bytes)" where
  "convertDocumentSteps lib data outputVersion =
     (case yamlUnmarshal lib data of
        None \<Rightarrow> ([], Inl CannotParse)
      | Some basicDoc \<Rightarrow>
          (case inputVersionOf (versionMarker basicDoc) of
             None \<Rightarrow> ([], Inl (UnsupportedVersion (versionMarker basicDoc)))
           | Some inputVersion \<Rightarrow> convertLoop lib outputVersion data inputVersion))"

definition convertDocument :: "library \<Rightarrow> bytes \<Rightarrow> SpecVersion \<Rightarrow> error + bytes" where
  "convertDocument lib data outputVersion = snd (convertDocumentSteps lib data outputVersion)"

text \<open>What a step of the loop has to be: one position toward the target.\<close>

definition toward :: "SpecVersion \<Rightarrow> SpecVersion \<times> SpecVersion \<Rightarrow> bool" where
  "toward target step =
     (case step of (before, after) \<Rightarrow>
        (rank before < rank target \<and> rank after = rank before + 1) \<or>
        (rank target < rank before \<and> rank before = rank after + 1))"

text \<open>The steps start at a given version and each starts where the one before ended.\<close>

fun chained :: "SpecVersion \<Rightarrow> (SpecVersion \<times> SpecVersion) list \<Rightarrow> bool" where
  "chained v [] = True"
| "chained v ((before, after) # steps) = (before = v \<and> chained after steps)"

section \<open>Descendants of a fragment\<close>

text \<open>
  The fragments nested in a schema at any depth, in the order properties, items,
  allOf, oneOf, anyOf: what a traversal at all depths has to reach.
\<close>

fun descendants :: "schema \<Rightarrow> schema list"
and itemsDescendants :: "items \<Rightarrow> schema list" where
  "descendants (Schema fs ps it al on an) =
     (case ps of None \<Rightarrow> [] | Some props \<Rightarrow> concat (map (\<lambda>(name, p). p # descendants p) props)) @
     (case it of None \<Rightarrow> [] | Some i \<Rightarrow> itemsDescendants i) @
     concat (map (\<lambda>c. c # descendants c) al) @
     concat (map (\<lambda>c. c # descendants c) on) @
     concat (map (\<lambda>c. c # descendants c) an)"
| "itemsDescendants (ItemsA a) = a # descendants a"
| "itemsDescendants (ItemsB b) = []"

section \<open>Sample inputs\<close>

definition typed :: "string list \<Rightarrow> schema" where
  "typed ts = Schema (zeroFields\<lparr> Type := ts \<rparr>) None None [] [] []"

text \<open>
  \<^verbatim>\<open>{type: object, nullable: false, properties: {middle: {type: object, nullable: true,
  properties: {inner: {type: string, nullable: true}}}}}\<close>
\<close>

definition innerSchema :: schema where
  "innerSchema =
     Schema (zeroFields\<lparr> Type := [''string''], Nullable := Some True \<rparr>) None None [] [] []"

definition middleSchema :: schema where
  "middleSchema =
     Schema (zeroFields\<lparr> Type := [''object''], Nullable := Some True \<rparr>)
            (Some [(''inner'', innerSchema)]) None [] [] []"

definition outerSchema :: schema where
  "outerSchema =
     Schema (zeroFields\<lparr> Type := [''object''], Nullable := Some False \<rparr>)
            (Some [(''middle'', middleSchema)]) None [] [] []"

text \<open>\<^verbatim>\<open>{type: string, format: date-time}\<close>, parsed from a document.\<close>

definition dateTimeString :: schema where
  "dateTimeString =
     Schema (zeroFields\<lparr> Type := [''string''], Format := ''date-time'',
               GoLow := Some \<lparr> ContentMediaType = '''', ContentEncoding = '''' \<rparr> \<rparr>)
            None None [] [] []"

text \<open>\<^verbatim>\<open>{minimum: 10, exclusiveMinimum: true, maximum: 20, exclusiveMaximum: false}\<close> (v1).\<close>

definition boundedV1 :: schema where
  "boundedV1 =
     Schema (zeroFields\<lparr> Minimum := Some 10,
               ExclusiveMinimum := Some \<lparr> N = 0, A = True, B = 0 \<rparr>,
               Maximum := Some 20,
               ExclusiveMaximum := Some \<lparr> N = 0, A = False, B = 0 \<rparr> \<rparr>)
            None None [] [] []"

text \<open>\<^verbatim>\<open>{exclusiveMinimum: 10, maximum: 20}\<close> (v2).\<close>

definition boundedV2 :: schema where
  "boundedV2 =
     Schema (zeroFields\<lparr> ExclusiveMinimum := Some \<lparr> N = 1, A = False, B = 10 \<rparr>,
               Maximum := Some 20 \<rparr>)
            None None [] [] []"

text \<open>\<^verbatim>\<open>{minimum: 10, exclusiveMinimum: 5}\<close> (v2): the numbers from 10 on.\<close>

definition doublyBounded :: schema where
  "doublyBounded =
     Schema (zeroFields\<lparr> Minimum := Some 10,
               ExclusiveMinimum := Some \<lparr> N = 1, A = False, B = 5 \<rparr> \<rparr>)
            None None [] [] []"

definition listPets :: operation where
  "listPets =
     \<lparr> Summary = '''', Description = ''Lists pets'', OperationID = ''PetService_ListPets'',
       Tags = [''PetService'', ''PetService''],
       Responses = Map.empty(''default'' \<mapsto>
          \<lparr> ResponseDescription = ''old'', ResponseSchema = None \<rparr>) \<rparr>"

definition petsPath :: path_item where
  "petsPath = \<lparr> Delete = None, Get = Some listPets, Head = None, Options = None,
                 Patch = None, Post = None, Put = None \<rparr>"

definition petsDoc :: swagger_doc where
  "petsDoc = \<lparr> Definitions = Map.empty(''rpcStatus'' \<mapsto> SchemaRef2 ''#/definitions/Mine'' None),
                Paths = Map.empty(''/pets'' \<mapsto> petsPath) \<rparr>"

text \<open>
  A stand-in for the library: a document is its version line, and each conversion
  writes the version line of its output dialect.
\<close>

definition toyLibrary :: library where
  "toyLibrary =
     \<lparr> yamlUnmarshal = (\<lambda>data.
         if take 9 data = ''swagger: '' then Some \<lparr> OpenAPI = '''', SwaggerMarker = drop 9 data \<rparr>
         else if take 9 data = ''openapi: '' then Some \<lparr> OpenAPI = drop 9 data, SwaggerMarker = '''' \<rparr>
         else None),
       convertSwaggerToOpenAPI30 = (\<lambda>data. Inr ''openapi: 3.0.3''),
       convertOpenAPI30To31 = (\<lambda>data. Inr ''openapi: 3.1.1''),
       convertOpenAPI31To30 = (\<lambda>data. Inr ''openapi: 3.0.4''),
       convertOpenAPI30ToSwagger = (\<lambda>data. Inr ''swagger: 2.0'') \<rparr>"

section \<open>Properties of the nullability rules\<close>

lemma scanTypes_fst: "fst (scanTypes (n, t) ts) = (n \<or> ''null'' \<in> set ts)"
  by (induction ts arbitrary: n t) auto

lemma scanTypes_snd:
  "snd (scanTypes (n, t) ts) =
     (case filter (\<lambda>v. v \<noteq> ''null'') ts of [] \<Rightarrow> t | x # xs \<Rightarrow> last (x # xs))"
  by (induction ts arbitrary: n t) (auto split: list.splits)

lemma scanTypes_pair:
  "scanTypes (False, '''') ts =
     (''null'' \<in> set ts,
      case filter (\<lambda>v. v \<noteq> ''null'') ts of [] \<Rightarrow> '''' | x # xs \<Rightarrow> last (x # xs))"
  by (simp add: prod_eq_iff scanTypes_fst scanTypes_snd)

lemma oneOfBranches_map:
  "oneOfBranches n ts = map (newSchema n) (filter (\<lambda>v. v \<noteq> ''null'') ts)"
  by (induction ts) auto

lemma two_entries:
  assumes "length ts = 2" "''null'' \<in> set ts" "t \<in> set ts" "t \<noteq> ''null''"
  shows "ts = [t, ''null''] \<or> ts = [''null'', t]"
proof -
  from assms(1) obtain a b where ts: "ts = [a, b]"
    by (auto simp: length_Suc_conv numeral_2_eq_2)
  with assms(2-4) show ?thesis by auto
qed

lemma nullable_scalar_last:
  "Type (attrs s) = [t, ''null''] \<Longrightarrow> t \<noteq> ''null'' \<Longrightarrow>
   convert31TypeArraysTo30 s = withFields (\<lambda>f. f\<lparr> Type := [t], Nullable := Some True \<rparr>) s"
  by (cases s) (simp add: convert31TypeArraysTo30_def)

lemma nullable_scalar_first:
  "Type (attrs s) = [''null'', t] \<Longrightarrow> t \<noteq> ''null'' \<Longrightarrow>
   convert31TypeArraysTo30 s = withFields (\<lambda>f. f\<lparr> Type := [t], Nullable := Some True \<rparr>) s"
  by (cases s) (simp add: convert31TypeArraysTo30_def)

lemma union_to_oneOf:
  assumes h: "2 \<le> length (filter (\<lambda>v. v \<noteq> ''null'') (Type (attrs s)))"
  shows "convert31TypeArraysTo30 s =
        withFields (\<lambda>f. f\<lparr> Type := [] \<rparr>)
          (withOneOf
             (map (newSchema (''null'' \<in> set (Type (attrs s))))
                  (filter (\<lambda>v. v \<noteq> ''null'') (Type (attrs s))))
             s)"
proof -
  let ?ts = "Type (attrs s)"
  have len: "2 \<le> length ?ts"
    using h length_filter_le[of "\<lambda>v. v \<noteq> ''null''" ?ts] by linarith
  have notpair: "\<not> (''null'' \<in> set ?ts \<and> length ?ts = 2)"
  proof
    assume a: "''null'' \<in> set ?ts \<and> length ?ts = 2"
    then obtain x y where xy: "?ts = [x, y]"
      by (auto simp: length_Suc_conv numeral_2_eq_2)
    with a h show False by (auto split: if_splits)
  qed
  show ?thesis
  proof (cases "''null'' \<in> set ?ts")
    case True
    then have "length ?ts \<noteq> 2" using notpair by simp
    with True len show ?thesis
      by (simp add: convert31TypeArraysTo30_def scanTypes_pair oneOfBranches_map Let_def)
  next
    case False
    with len show ?thesis
      by (simp add: convert31TypeArraysTo30_def scanTypes_pair oneOfBranches_map Let_def)
  qed
qed

lemma short_type_array_unchanged:
  "length (Type (attrs s)) \<le> 1 \<Longrightarrow> convert31TypeArraysTo30 s = s"
  by (simp add: convert31TypeArraysTo30_def scanTypes_pair)

text \<open>
  Claim C2. The v2-to-v1 nullability rule, by the shape of the type array.
  (1) Exactly two entries, one of them \<open>''null''\<close> and the other an entry \<open>t\<close> that is
  not: the type becomes \<open>[t]\<close> and the nullable flag becomes true, and nothing else
  changes. (2) Two or more entries that are not \<open>''null''\<close>: the type array is cleared
  and \<open>OneOf\<close> becomes one single-typed branch per entry that is not \<open>''null''\<close>, in
  order, each with the nullable flag true if \<open>''null''\<close> was among the entries and unset
  if it was not. (3) At most one entry: the fragment is unchanged.
\<close>

theorem convert31TypeArraysTo30_cases:
  "(length (Type (attrs s)) = 2 \<and> ''null'' \<in> set (Type (attrs s)) \<and>
      t \<in> set (Type (attrs s)) \<and> t \<noteq> ''null'' \<longrightarrow>
      convert31TypeArraysTo30 s = withFields (\<lambda>f. f\<lparr> Type := [t], Nullable := Some True \<rparr>) s) \<and>
   (2 \<le> length (filter (\<lambda>v. v \<noteq> ''null'') (Type (attrs s))) \<longrightarrow>
      convert31TypeArraysTo30 s =
        withFields (\<lambda>f. f\<lparr> Type := [] \<rparr>)
          (withOneOf
             (map (\<lambda>v. Schema (zeroFields\<lparr> Type := [v],
                        Nullable := (if ''null'' \<in> set (Type (attrs s)) then Some True else None) \<rparr>)
                      None None [] [] [])
                  (filter (\<lambda>v. v \<noteq> ''null'') (Type (attrs s))))
             s)) \<and>
   (length (Type (attrs s)) \<le> 1 \<longrightarrow> convert31TypeArraysTo30 s = s)"
proof (intro conjI impI)
  assume h: "length (Type (attrs s)) = 2 \<and> ''null'' \<in> set (Type (attrs s)) \<and>
      t \<in> set (Type (attrs s)) \<and> t \<noteq> ''null''"
  then have "Type (attrs s) = [t, ''null''] \<or> Type (attrs s) = [''null'', t]"
    using two_entries by blast
  with h show "convert31TypeArraysTo30 s = withFields (\<lambda>f. f\<lparr> Type := [t], Nullable := Some True \<rparr>) s"
    using nullable_scalar_last nullable_scalar_first by blast
next
  assume h: "2 \<le> length (filter (\<lambda>v. v \<noteq> ''null'') (Type (attrs s)))"
  have "newSchema (''null'' \<in> set (Type (attrs s))) =
        (\<lambda>v. Schema (zeroFields\<lparr> Type := [v],
                        Nullable := (if ''null'' \<in> set (Type (attrs s)) then Some True else None) \<rparr>)
                      None None [] [] [])"
    by (rule ext) (simp add: newSchema_def)
  with union_to_oneOf[OF h] show "convert31TypeArraysTo30 s =
        withFields (\<lambda>f. f\<lparr> Type := [] \<rparr>)
          (withOneOf
             (map (\<lambda>v. Schema (zeroFields\<lparr> Type := [v],
                        Nullable := (if ''null'' \<in> set (Type (attrs s)) then Some True else None) \<rparr>)
                      None None [] [] [])
                  (filter (\<lambda>v. v \<noteq> ''null'') (Type (attrs s))))
             s)"
    by simp
next
  assume "length (Type (attrs s)) \<le> 1"
  then show "convert31TypeArraysTo30 s = s"
    by (rule short_type_array_unchanged)
qed

theorem convert31TypeArraysTo30_cases_witness:
  "convert31TypeArraysTo30 (typed [''null'', ''string'']) =
     Schema (zeroFields\<lparr> Type := [''string''], Nullable := Some True \<rparr>) None None [] [] [] \<and>
   convert31TypeArraysTo30 (typed [''string'', ''null'', ''integer'']) =
     Schema zeroFields None None []
       [Schema (zeroFields\<lparr> Type := [''string''], Nullable := Some True \<rparr>) None None [] [] [],
        Schema (zeroFields\<lparr> Type := [''integer''], Nullable := Some True \<rparr>) None None [] [] []] [] \<and>
   convert31TypeArraysTo30 (typed [''string'', ''integer'']) =
     Schema zeroFields None None []
       [Schema (zeroFields\<lparr> Type := [''string''] \<rparr>) None None [] [] [],
        Schema (zeroFields\<lparr> Type := [''integer''] \<rparr>) None None [] [] []] [] \<and>
   convert31TypeArraysTo30 (typed [''string'']) = typed [''string'']"
  using convert31TypeArraysTo30_cases [of "typed [''null'', ''string'']" "''string''"]
        convert31TypeArraysTo30_cases [of "typed [''string'', ''null'', ''integer'']"]
        convert31TypeArraysTo30_cases [of "typed [''string'', ''integer'']"]
        convert31TypeArraysTo30_cases [of "typed [''string'']"]
  by (simp add: typed_def zeroFields_def)

text \<open>
  Two entries that are both \<open>''null''\<close> have no entry to keep: the scan never sets the
  type to keep, and the rule leaves the empty string as the type.
\<close>

lemma convert31TypeArraysTo30_null_null:
  "convert31TypeArraysTo30 (typed [''null'', ''null'']) =
     Schema (zeroFields\<lparr> Type := [''''], Nullable := Some True \<rparr>) None None [] [] []"
  by (simp add: convert31TypeArraysTo30_def typed_def)

text \<open>
  Claim C3, as the code has it. For a fragment with the nullable flag unset and a type
  array of two entries, \<open>''null''\<close> and an entry \<open>t\<close> that is not \<open>''null''\<close>: when
  \<open>''null''\<close> is the second entry, the downgrade followed by the upgrade gives back the
  fragment itself; when \<open>''null''\<close> is the first entry, it gives the fragment with the
  type array \<open>[t, ''null'']\<close>, the two entries swapped, and the nullable flag unset as
  before.
\<close>

theorem nullable_downgrade_upgrade:
  assumes "Nullable (attrs s) = None" and "t \<noteq> ''null''"
  shows "(Type (attrs s) = [t, ''null''] \<longrightarrow>
            convert30NullablesTo31TypeArrays (convert31TypeArraysTo30 s) = s) \<and>
         (Type (attrs s) = [''null'', t] \<longrightarrow>
            convert30NullablesTo31TypeArrays (convert31TypeArraysTo30 s) =
              withFields (\<lambda>f. f\<lparr> Type := [t, ''null''] \<rparr>) s)"
proof (intro conjI impI)
  assume ts: "Type (attrs s) = [t, ''null'']"
  show "convert30NullablesTo31TypeArrays (convert31TypeArraysTo30 s) = s"
    using assms ts
    by (cases s) (simp add: nullable_scalar_last convert30NullablesTo31TypeArrays_def)
next
  assume ts: "Type (attrs s) = [''null'', t]"
  show "convert30NullablesTo31TypeArrays (convert31TypeArraysTo30 s) =
          withFields (\<lambda>f. f\<lparr> Type := [t, ''null''] \<rparr>) s"
    using assms ts
    by (cases s) (simp add: nullable_scalar_first convert30NullablesTo31TypeArrays_def)
qed

theorem nullable_downgrade_upgrade_witness:
  "convert30NullablesTo31TypeArrays (convert31TypeArraysTo30 (typed [''string'', ''null''])) =
     typed [''string'', ''null''] \<and>
   convert30NullablesTo31TypeArrays (convert31TypeArraysTo30 (typed [''null'', ''string''])) =
     typed [''string'', ''null'']"
  using nullable_downgrade_upgrade [of "typed [''string'', ''null'']" "''string''"]
        nullable_downgrade_upgrade [of "typed [''null'', ''string'']" "''string''"]
  by (simp add: typed_def zeroFields_def)

text \<open>
  The round trip does not keep the order of the entries: from the type array
  \<open>[''null'', ''string'']\<close> with the nullable flag unset it comes back with
  \<open>[''string'', ''null'']\<close>.
\<close>

theorem nullable_downgrade_upgrade_order_counterexample:
  "Nullable (attrs (typed [''null'', ''string''])) = None \<and>
   Type (attrs (convert30NullablesTo31TypeArrays
                   (convert31TypeArraysTo30 (typed [''null'', ''string''])))) =
     [''string'', ''null''] \<and>
   Type (attrs (convert30NullablesTo31TypeArrays
                   (convert31TypeArraysTo30 (typed [''null'', ''string''])))) \<noteq>
     Type (attrs (typed [''null'', ''string'']))"
  by (simp add: convert30NullablesTo31TypeArrays_def convert31TypeArraysTo30_def
                typed_def zeroFields_def)

section \<open>Properties of the numeric bound rules\<close>

lemma minPair_convert30MinMaxTo31:
  "minPair (convert30MinMaxTo31 s) = convert30ExclusiveBoundTo31 (minPair s)"
  by (cases s) (simp add: minPair_def convert30MinMaxTo31_def split: prod.splits)

lemma maxPair_convert30MinMaxTo31:
  "maxPair (convert30MinMaxTo31 s) = convert30ExclusiveBoundTo31 (maxPair s)"
  by (cases s) (simp add: maxPair_def convert30MinMaxTo31_def split: prod.splits)

lemma minPair_convert31MinMaxTo30:
  "minPair (convert31MinMaxTo30 s) = convert31ExclusiveBoundTo30 (minPair s)"
  by (cases s) (simp add: minPair_def convert31MinMaxTo30_def split: prod.splits)

lemma maxPair_convert31MinMaxTo30:
  "maxPair (convert31MinMaxTo30 s) = convert31ExclusiveBoundTo30 (maxPair s)"
  by (cases s) (simp add: maxPair_def convert31MinMaxTo30_def split: prod.splits)

text \<open>The upgrade of a pair keeps what the pair means, whatever the pair.\<close>

lemma upgrade_admits: "admits below (convert30ExclusiveBoundTo31 p) x = admits below p x"
  by (cases p) (auto simp: convert30ExclusiveBoundTo31_def admits_def IsA_def IsB_def
                split: option.splits)

lemma upgrade_effectiveBound: "effectiveBound (convert30ExclusiveBoundTo31 p) = effectiveBound p"
  by (cases p) (auto simp: convert30ExclusiveBoundTo31_def effectiveBound_def IsA_def IsB_def
                split: option.splits)

lemma upgrade_doubleBound: "doubleBound (convert30ExclusiveBoundTo31 p) = doubleBound p"
  by (cases p) (auto simp: convert30ExclusiveBoundTo31_def doubleBound_def IsA_def IsB_def
                split: option.splits)

text \<open>The downgrade overwrites the separate bound, so it needs the pair to hold one bound only.\<close>

lemma downgrade_admits:
  "\<not> doubleBound p \<Longrightarrow> admits below (convert31ExclusiveBoundTo30 p) x = admits below p x"
  by (cases p) (auto simp: convert31ExclusiveBoundTo30_def admits_def doubleBound_def IsA_def IsB_def
                split: option.splits)

lemma downgrade_effectiveBound:
  "effectiveBound (convert31ExclusiveBoundTo30 p) = effectiveBound p"
  by (cases p) (auto simp: convert31ExclusiveBoundTo30_def effectiveBound_def IsA_def IsB_def
                split: option.splits)

lemma pair_round_trips:
  assumes "\<not> doubleBound p"
  shows "effectiveBound (convert31ExclusiveBoundTo30 (convert30ExclusiveBoundTo31 p)) = effectiveBound p"
    and "effectiveBound (convert30ExclusiveBoundTo31 (convert31ExclusiveBoundTo30 p)) = effectiveBound p"
    and "admits below (convert31ExclusiveBoundTo30 (convert30ExclusiveBoundTo31 p)) x = admits below p x"
    and "admits below (convert30ExclusiveBoundTo31 (convert31ExclusiveBoundTo30 p)) x = admits below p x"
  using assms
  by (simp_all add: upgrade_admits upgrade_effectiveBound upgrade_doubleBound
                    downgrade_admits downgrade_effectiveBound)

text \<open>
  Claim C7, as the code has it. For a fragment in which neither the minimum nor the
  maximum holds a separate bound together with an indicator in numeric form, the
  upgrade followed by the downgrade, and the downgrade followed by the upgrade, each
  keep the number of the bound and whether it is exclusive (\<open>effectiveBound\<close>), and
  each admit exactly the numbers admitted before (\<open>admits\<close>).
\<close>

theorem min_max_round_trips:
  assumes "\<not> doubleBound (minPair s)" and "\<not> doubleBound (maxPair s)"
  shows "effectiveBound (minPair (convert31MinMaxTo30 (convert30MinMaxTo31 s))) =
           effectiveBound (minPair s) \<and>
         effectiveBound (maxPair (convert31MinMaxTo30 (convert30MinMaxTo31 s))) =
           effectiveBound (maxPair s) \<and>
         effectiveBound (minPair (convert30MinMaxTo31 (convert31MinMaxTo30 s))) =
           effectiveBound (minPair s) \<and>
         effectiveBound (maxPair (convert30MinMaxTo31 (convert31MinMaxTo30 s))) =
           effectiveBound (maxPair s) \<and>
         admits False (minPair (convert31MinMaxTo30 (convert30MinMaxTo31 s))) x =
           admits False (minPair s) x \<and>
         admits True (maxPair (convert31MinMaxTo30 (convert30MinMaxTo31 s))) x =
           admits True (maxPair s) x \<and>
         admits False (minPair (convert30MinMaxTo31 (convert31MinMaxTo30 s))) x =
           admits False (minPair s) x \<and>
         admits True (maxPair (convert30MinMaxTo31 (convert31MinMaxTo30 s))) x =
           admits True (maxPair s) x"
  using assms
  by (simp add: minPair_convert30MinMaxTo31 maxPair_convert30MinMaxTo31
                minPair_convert31MinMaxTo30 maxPair_convert31MinMaxTo30 pair_round_trips)

theorem min_max_round_trips_witness:
  "effectiveBound (minPair (convert31MinMaxTo30 (convert30MinMaxTo31 boundedV1))) = Some (10, True) \<and>
   effectiveBound (maxPair (convert31MinMaxTo30 (convert30MinMaxTo31 boundedV1))) = Some (20, False) \<and>
   effectiveBound (minPair (convert30MinMaxTo31 (convert31MinMaxTo30 boundedV2))) = Some (10, True) \<and>
   effectiveBound (maxPair (convert30MinMaxTo31 (convert31MinMaxTo30 boundedV2))) = Some (20, False) \<and>
   \<not> admits False (minPair (convert31MinMaxTo30 (convert30MinMaxTo31 boundedV1))) 10 \<and>
   admits True (maxPair (convert31MinMaxTo30 (convert30MinMaxTo31 boundedV1))) 20 \<and>
   \<not> admits False (minPair (convert30MinMaxTo31 (convert31MinMaxTo30 boundedV2))) 10 \<and>
   admits True (maxPair (convert30MinMaxTo31 (convert31MinMaxTo30 boundedV2))) 20"
  using min_max_round_trips [of boundedV1 10] min_max_round_trips [of boundedV1 20]
        min_max_round_trips [of boundedV2 10] min_max_round_trips [of boundedV2 20]
  by (simp add: boundedV1_def boundedV2_def zeroFields_def minPair_def maxPair_def
                doubleBound_def effectiveBound_def admits_def beyond_def IsA_def IsB_def)

text \<open>
  A fragment with a separate minimum of 10 and a numeric exclusive minimum of 5 admits
  the numbers from 10 on. The downgrade overwrites the minimum with 5, and after the
  upgrade only the exclusive minimum of 5 is left: 7 is admitted, and the bound 10 is
  gone.
\<close>

theorem min_max_round_trip_counterexample:
  "Minimum (attrs doublyBounded) = Some 10 \<and>
   \<not> admits False (minPair doublyBounded) 7 \<and>
   Minimum (attrs (convert30MinMaxTo31 (convert31MinMaxTo30 doublyBounded))) = None \<and>
   admits False (minPair (convert30MinMaxTo31 (convert31MinMaxTo30 doublyBounded))) 7 \<and>
   admits False (minPair (convert31MinMaxTo30 (convert30MinMaxTo31 doublyBounded))) 7"
  by (simp add: doublyBounded_def zeroFields_def minPair_def admits_def beyond_def
                IsA_def IsB_def convert30MinMaxTo31_def convert31MinMaxTo30_def
                convert30ExclusiveBoundTo31_def convert31ExclusiveBoundTo30_def)

section \<open>Properties of the binary string encoding rule\<close>

text \<open>
  What \<^verbatim>\<open>convert30FormatsTo31ContentFields\<close> does to any fragment: when the sole type is
  \<open>''string''\<close> and the format is not empty, the format is cleared whatever it is, and a
  marker is set only for the three formats the rule knows.
\<close>

lemma convert30FormatsTo31ContentFields_cases:
  "convert30FormatsTo31ContentFields s =
     (if Type (attrs s) = [''string''] \<and> Format (attrs s) \<noteq> '''' then
        withFields (\<lambda>f. f\<lparr> Format := '''',
           GoLow := map_option
             (\<lambda>l. if Format (attrs s) = ''binary'' \<or> Format (attrs s) = ''byte''
                  then l\<lparr> ContentMediaType := ''base64'' \<rparr>
                  else if Format (attrs s) = ''base64'' then l\<lparr> ContentEncoding := ''base64'' \<rparr>
                  else l) (GoLow f) \<rparr>) s
      else s)"
proof (cases s)
  case (Schema fs ps it al on an)
  have id: "map_option (\<lambda>l. l) (GoLow fs) = GoLow fs"
    by (cases "GoLow fs") auto
  show ?thesis
  proof (cases "Type fs = [''string'']")
    case True
    then show ?thesis
      unfolding Schema convert30FormatsTo31ContentFields_def
      by (simp add: id)
  next
    case False
    then have c: "\<not> (length (Type fs) = 1 \<and> Type fs ! 0 = ''string'' \<and> length (Format fs) > 0)"
      by (cases "Type fs") auto
    show ?thesis
      unfolding Schema convert30FormatsTo31ContentFields_def
      using c False by auto
  qed
qed

text \<open>
  Claim C4 says that a string-typed fragment whose format is none of \<open>''binary''\<close>,
  \<open>''byte''\<close> and \<open>''base64''\<close> is left unchanged, format included. The code clears the
  format of such a fragment: \<^verbatim>\<open>{type: string, format: date-time}\<close> comes out as
  \<^verbatim>\<open>{type: string}\<close>.
\<close>

theorem convert30FormatsTo31ContentFields_drops_other_formats:
  "convert30FormatsTo31ContentFields dateTimeString =
     Schema (zeroFields\<lparr> Type := [''string''], Format := '''',
               GoLow := Some \<lparr> ContentMediaType = '''', ContentEncoding = '''' \<rparr> \<rparr>)
            None None [] [] [] \<and>
   convert30FormatsTo31ContentFields dateTimeString \<noteq> dateTimeString"
  by (simp add: convert30FormatsTo31ContentFields_def dateTimeString_def zeroFields_def)

section \<open>Properties of the schema visitor\<close>

lemma updateSchemaAndReferencedSchema_nil:
  "updateSchemaAndReferencedSchema None callback = None"
  by simp

text \<open>The callback reaches the schema itself last, with its children already rewritten.\<close>

lemma updateSchemaAndReferencedSchema_self_last:
  "updateSchemaAndReferencedSchema (Some (Schema fs None None al [] [])) callback =
     Some (callback (Schema fs None None (map callback al) [] []))"
  by simp

text \<open>
  Claim C1 says that the visitor reaches every descendant at every depth. The code
  applies the callback to the children of the schema and to the schema, and goes no
  deeper: in the sample schema the property \<open>inner\<close> of the property \<open>middle\<close> is a
  descendant, the upgrade rule for nullability would rewrite it, and the visitor
  leaves it as it was, while \<open>middle\<close> and the schema itself are rewritten.
\<close>

theorem updateSchemaAndReferencedSchema_skips_grandchildren:
  "innerSchema \<in> set (descendants outerSchema) \<and>
   convert30NullablesTo31TypeArrays innerSchema \<noteq> innerSchema \<and>
   updateSchemaAndReferencedSchema (Some outerSchema) convert30NullablesTo31TypeArrays =
     Some (Schema (zeroFields\<lparr> Type := [''object''] \<rparr>)
             (Some [(''middle'',
                Schema (zeroFields\<lparr> Type := [''object'', ''null''] \<rparr>)
                  (Some [(''inner'', innerSchema)]) None [] [] [])])
             None [] [] [])"
  by (simp add: outerSchema_def middleSchema_def innerSchema_def zeroFields_def
                convert30NullablesTo31TypeArrays_def)

section \<open>Properties of the downgrade normalizer\<close>

text \<open>
  Claim C10. When the summary is empty and the description is not, the summary becomes
  the description as it was, and the description becomes the description as it was
  followed by the note; so whenever there is a note, the summary is without it.
\<close>

theorem copyDescriptionToSummary_summary_first:
  assumes "Summary op = ''''" and "Description op \<noteq> ''''"
  shows "\<exists>op'. copyDescriptionToSummary (Some op) = Some op' \<and>
               Summary op' = Description op \<and>
               Description op' = Description op @ grpcInfo op \<and>
               (grpcInfo op \<noteq> '''' \<longrightarrow> Summary op' \<noteq> Description op')"
  using assms by (simp add: copyDescriptionToSummary_def Let_def)

lemma grpcInfo_listPets:
  "grpcInfo listPets =
     ''\<newline>\<newline>'' @ clientLabel @ ''PetService'' @ ''\<newline>'' @ methodLabel @ ''ListPets''"
  by (simp add: grpcInfo_def grpcClientName_def methodName_def listPets_def Let_def
                clientLabel_def methodLabel_def)

theorem copyDescriptionToSummary_summary_first_witness:
  "\<exists>op'. copyDescriptionToSummary (Some listPets) = Some op' \<and>
         Summary op' = ''Lists pets'' \<and>
         Description op' = ''Lists pets'' @ ''\<newline>\<newline>'' @ clientLabel @ ''PetService'' @
                           ''\<newline>'' @ methodLabel @ ''ListPets'' \<and>
         Summary op' \<noteq> Description op'"
  using copyDescriptionToSummary_summary_first [of listPets] grpcInfo_listPets
  by (simp add: listPets_def)

lemma normalize_operation:
  "\<exists>op'. addDefaultErrorResponseToOperation
            (deduplicateTags (copyDescriptionToSummary (Some op))) = Some op' \<and>
         Responses op' ''default'' = Some defaultErrorResponse"
  by (auto simp: addDefaultErrorResponseToOperation_def deduplicateTags_def
                 copyDescriptionToSummary_def Let_def)

lemma normalize_nil:
  "addDefaultErrorResponseToOperation (deduplicateTags (copyDescriptionToSummary None)) = None"
  by (simp add: addDefaultErrorResponseToOperation_def deduplicateTags_def
                copyDescriptionToSummary_def)

lemma method_normalizePath:
  "m \<in> set methods \<Longrightarrow>
   m (normalizePath path) =
     addDefaultErrorResponseToOperation (deduplicateTags (copyDescriptionToSummary (m path)))"
  by (auto simp: methods_def normalizePath_def forOperations_def)

lemma Paths_addDefaultErrorResponses:
  "Paths (addDefaultErrorResponses doc) name = map_option normalizePath (Paths doc name)"
  by (simp add: addDefaultErrorResponses_def Let_def)

lemma Definitions_addDefaultErrorResponses:
  "Definitions (addDefaultErrorResponses doc) key =
     (if key = ''rpcStatus'' then
        Some (case Definitions doc ''rpcStatus'' of None \<Rightarrow> rpcStatus | Some d \<Rightarrow> d)
      else if key = ''googleprotobufAny'' then
        Some (case Definitions doc ''googleprotobufAny'' of
                None \<Rightarrow> googleprotobufAny | Some d \<Rightarrow> d)
      else Definitions doc key)"
  by (simp add: addDefaultErrorResponses_def Let_def split: option.splits)

lemma normalized_operation_has_default:
  assumes "m \<in> set methods" and "m (normalizePath path) = Some op'"
  shows "Responses op' ''default'' = Some defaultErrorResponse"
proof (cases "m path")
  case None
  with assms show ?thesis by (simp add: method_normalizePath normalize_nil)
next
  case (Some op)
  with assms normalize_operation[of op] show ?thesis
    by (auto simp: method_normalizePath)
qed

text \<open>
  Claim C5. After \<^verbatim>\<open>addDefaultErrorResponses\<close>: every operation of the document, under
  any of the seven methods of any path, has as its response \<open>''default''\<close> the response
  whose schema refers to \<open>#/definitions/rpcStatus\<close>, whatever it had before; every
  operation of the input is still there; each of the two definitions
  \<open>googleprotobufAny\<close> and \<open>rpcStatus\<close> is present, as it was if it was there and as the
  injected one if it was not; and no other definition changes. The definitions are a
  map, so each name is there once.
\<close>

theorem addDefaultErrorResponses_default_response:
  "(Paths (addDefaultErrorResponses doc) name = Some path' \<and> m \<in> set methods \<and>
      m path' = Some op' \<longrightarrow>
      Responses op' ''default'' =
        Some \<lparr> ResponseDescription = ''An unexpected error response.'',
               ResponseSchema = Some (SchemaRef2 ''#/definitions/rpcStatus'' None) \<rparr>) \<and>
   (Paths doc name = Some path \<and> m \<in> set methods \<and> m path = Some op \<longrightarrow>
      (\<exists>path'' op''. Paths (addDefaultErrorResponses doc) name = Some path'' \<and>
                      m path'' = Some op'')) \<and>
   Definitions (addDefaultErrorResponses doc) ''googleprotobufAny'' =
     Some (case Definitions doc ''googleprotobufAny'' of
             None \<Rightarrow> googleprotobufAny | Some d \<Rightarrow> d) \<and>
   Definitions (addDefaultErrorResponses doc) ''rpcStatus'' =
     Some (case Definitions doc ''rpcStatus'' of None \<Rightarrow> rpcStatus | Some d \<Rightarrow> d) \<and>
   (key \<noteq> ''googleprotobufAny'' \<and> key \<noteq> ''rpcStatus'' \<longrightarrow>
      Definitions (addDefaultErrorResponses doc) key = Definitions doc key)"
proof (intro conjI impI)
  assume h: "Paths (addDefaultErrorResponses doc) name = Some path' \<and> m \<in> set methods \<and>
      m path' = Some op'"
  then obtain path where "path' = normalizePath path"
    by (auto simp: Paths_addDefaultErrorResponses)
  with h have "Responses op' ''default'' = Some defaultErrorResponse"
    using normalized_operation_has_default by blast
  then show "Responses op' ''default'' =
        Some \<lparr> ResponseDescription = ''An unexpected error response.'',
               ResponseSchema = Some (SchemaRef2 ''#/definitions/rpcStatus'' None) \<rparr>"
    by (simp add: defaultErrorResponse_def)
next
  assume h: "Paths doc name = Some path \<and> m \<in> set methods \<and> m path = Some op"
  then have p: "Paths (addDefaultErrorResponses doc) name = Some (normalizePath path)"
    by (simp add: Paths_addDefaultErrorResponses)
  from h have "m (normalizePath path) =
      addDefaultErrorResponseToOperation (deduplicateTags (copyDescriptionToSummary (Some op)))"
    by (simp add: method_normalizePath)
  with normalize_operation[of op] obtain op'' where "m (normalizePath path) = Some op''"
    by auto
  with p show "\<exists>path'' op''. Paths (addDefaultErrorResponses doc) name = Some path'' \<and>
                      m path'' = Some op''"
    by blast
qed (simp_all add: Definitions_addDefaultErrorResponses)

lemma petsDoc_normalized:
  "\<exists>op'. Paths (addDefaultErrorResponses petsDoc) ''/pets'' =
            Some (normalizePath petsPath) \<and>
         Get (normalizePath petsPath) = Some op'"
  by (simp add: Paths_addDefaultErrorResponses petsDoc_def petsPath_def normalizePath_def
                forOperations_def addDefaultErrorResponseToOperation_def deduplicateTags_def
                copyDescriptionToSummary_def Let_def)

theorem addDefaultErrorResponses_default_response_witness:
  "(\<exists>path' op'. Paths (addDefaultErrorResponses petsDoc) ''/pets'' = Some path' \<and>
                 Get path' = Some op' \<and>
                 Responses op' ''default'' =
                   Some \<lparr> ResponseDescription = ''An unexpected error response.'',
                          ResponseSchema = Some (SchemaRef2 ''#/definitions/rpcStatus'' None) \<rparr>) \<and>
   Definitions (addDefaultErrorResponses petsDoc) ''googleprotobufAny'' = Some googleprotobufAny \<and>
   Definitions (addDefaultErrorResponses petsDoc) ''rpcStatus'' =
     Some (SchemaRef2 ''#/definitions/Mine'' None) \<and>
   Definitions (addDefaultErrorResponses petsDoc) ''Pet'' = None"
proof -
  from petsDoc_normalized obtain op' where
    p: "Paths (addDefaultErrorResponses petsDoc) ''/pets'' = Some (normalizePath petsPath)"
    and g: "Get (normalizePath petsPath) = Some op'"
    by blast
  have m: "Get \<in> set methods" by (simp add: methods_def)
  have "Responses op' ''default'' =
          Some \<lparr> ResponseDescription = ''An unexpected error response.'',
                 ResponseSchema = Some (SchemaRef2 ''#/definitions/rpcStatus'' None) \<rparr>"
    using addDefaultErrorResponses_default_response
            [of petsDoc "''/pets''" "normalizePath petsPath" Get op'] p g m
    by simp
  with p g have first: "\<exists>path' op'. Paths (addDefaultErrorResponses petsDoc) ''/pets'' = Some path' \<and>
                 Get path' = Some op' \<and>
                 Responses op' ''default'' =
                   Some \<lparr> ResponseDescription = ''An unexpected error response.'',
                          ResponseSchema = Some (SchemaRef2 ''#/definitions/rpcStatus'' None) \<rparr>"
    by blast
  have rest: "Definitions (addDefaultErrorResponses petsDoc) ''googleprotobufAny'' = Some googleprotobufAny \<and>
   Definitions (addDefaultErrorResponses petsDoc) ''rpcStatus'' =
     Some (SchemaRef2 ''#/definitions/Mine'' None) \<and>
   Definitions (addDefaultErrorResponses petsDoc) ''Pet'' = None"
    using addDefaultErrorResponses_default_response
            [of petsDoc "''/pets''" "normalizePath petsPath" Get op' petsPath listPets "''Pet''"]
    by (simp add: petsDoc_def)
  from first rest show ?thesis by blast
qed

section \<open>Properties of the conversion orchestrator\<close>

lemma convertLoop_done: "convertLoop lib v data v = ([], Inr data)"
  by (subst convertLoop.simps) simp

lemma convertLoop_step:
  "inputVersion \<noteq> outputVersion \<Longrightarrow>
   convertLoop lib outputVersion data inputVersion =
     (case loopBody lib outputVersion inputVersion data of
        (Inl err, reached) \<Rightarrow> ([(inputVersion, reached)], Inl err)
      | (Inr data', reached) \<Rightarrow>
          (case convertLoop lib outputVersion data' reached of
             (steps, result) \<Rightarrow> ((inputVersion, reached) # steps, result)))"
  by (subst convertLoop.simps) simp

lemma inputVersionOf_None:
  "marker \<notin> set recognizedMarkers \<Longrightarrow> inputVersionOf marker = None"
  by (simp add: recognizedMarkers_def inputVersionOf_def)

text \<open>
  Claim C6. When the marker read from the document gives the requested version, the
  loop makes no step and the document comes back as it went in.
\<close>

theorem convertDocument_identity:
  assumes "yamlUnmarshal lib data = Some basicDoc"
      and "inputVersionOf (versionMarker basicDoc) = Some outputVersion"
  shows "convertDocumentSteps lib data outputVersion = ([], Inr data) \<and>
         convertDocument lib data outputVersion = Inr data"
  using assms by (simp add: convertDocument_def convertDocumentSteps_def convertLoop_done)

theorem convertDocument_identity_witness:
  "convertDocumentSteps toyLibrary ''openapi: 3.0.3'' OpenAPI30 = ([], Inr ''openapi: 3.0.3'') \<and>
   convertDocument toyLibrary ''openapi: 3.0.3'' OpenAPI30 = Inr ''openapi: 3.0.3''"
  using convertDocument_identity
          [of toyLibrary "''openapi: 3.0.3''" "\<lparr> OpenAPI = ''3.0.3'', SwaggerMarker = '''' \<rparr>" OpenAPI30]
  by (simp add: toyLibrary_def versionMarker_def inputVersionOf_def)

text \<open>
  Claim C8. When the marker, read from the field \<open>OpenAPI\<close> or, if that is empty, from
  the field \<open>SwaggerMarker\<close>, is none of the recognized strings, the result is the
  error for an unsupported version, its message ends with the marker, no step is made
  and no document comes back.
\<close>

theorem convertDocument_unsupported:
  assumes "yamlUnmarshal lib data = Some basicDoc"
      and "versionMarker basicDoc \<notin> set recognizedMarkers"
  shows "convertDocumentSteps lib data outputVersion =
           ([], Inl (UnsupportedVersion (versionMarker basicDoc))) \<and>
         convertDocument lib data outputVersion =
           Inl (UnsupportedVersion (versionMarker basicDoc)) \<and>
         message (UnsupportedVersion (versionMarker basicDoc)) =
           ''Unsuppoted input document OpenAPI version: '' @ versionMarker basicDoc"
  using assms
  by (simp add: convertDocument_def convertDocumentSteps_def inputVersionOf_None)

theorem convertDocument_unsupported_witness:
  "convertDocument toyLibrary ''swagger: 1.2'' OpenAPI31 = Inl (UnsupportedVersion ''1.2'') \<and>
   message (UnsupportedVersion ''1.2'') = ''Unsuppoted input document OpenAPI version: 1.2''"
  using convertDocument_unsupported
          [of toyLibrary "''swagger: 1.2''" "\<lparr> OpenAPI = '''', SwaggerMarker = ''1.2'' \<rparr>" OpenAPI31]
  by (simp add: toyLibrary_def versionMarker_def recognizedMarkers_def)

text \<open>
  Claim C9. From any input version to any target the loop ends (it is a total
  function), having made at most two steps; each step goes one position toward the
  target in the order Swagger, OpenAPI30, OpenAPI31; the first starts at the input
  version and each next one where the one before ended.
\<close>

theorem convertLoop_at_most_two_steps:
  "length (fst (convertLoop lib outputVersion data inputVersion)) \<le> 2 \<and>
   list_all (toward outputVersion) (fst (convertLoop lib outputVersion data inputVersion)) \<and>
   chained inputVersion (fst (convertLoop lib outputVersion data inputVersion))"
  by (cases inputVersion; cases outputVersion)
     (auto simp: convertLoop_step convertLoop_done loopBody_def toward_def
           split: sum.splits prod.splits)

theorem convertLoop_at_most_two_steps_witness:
  "fst (convertLoop toyLibrary OpenAPI31 ''swagger: 2.0'' Swagger) =
     [(Swagger, OpenAPI30), (OpenAPI30, OpenAPI31)] \<and>
   length (fst (convertLoop toyLibrary OpenAPI31 ''swagger: 2.0'' Swagger)) \<le> 2 \<and>
   list_all (toward OpenAPI31) (fst (convertLoop toyLibrary OpenAPI31 ''swagger: 2.0'' Swagger)) \<and>
   chained Swagger (fst (convertLoop toyLibrary OpenAPI31 ''swagger: 2.0'' Swagger))"
  using convertLoop_at_most_two_steps [of toyLibrary OpenAPI31 "''swagger: 2.0''" Swagger]
  by (simp add: convertLoop_step convertLoop_done loopBody_def toyLibrary_def)

end
